theory Spec2Isabelle
  imports Main "HOL-Library.Word"
begin

section \<open>Common data: bytes and errors\<close>

text \<open>
  Go's \<open>[]byte\<close> is a list of 8-bit words, a Go \<open>string\<close> is a list of 8-bit characters.
  A Go call returning \<open>(value, error)\<close> is a pair whose second component is
  \<open>None\<close> for a nil error. A nil pointer or nil interface value is \<open>None\<close>.
\<close>

type_synonym byte = "8 word"

text \<open>
  The error values the modelled code creates or passes on. \<open>ErrLength\<close> and
  \<open>InvalidByteError\<close> are the two errors of Go's \<open>encoding/hex\<close>;
  \<open>Wrapped e s\<close> is \<open>fmt.Errorf("%w" + s, e)\<close>; \<open>ExternalError\<close> stands for any error
  produced by a collaborator (the remote proxy, a factory, the blockchain hook).
\<close>

datatype error =
    ErrNilProxy
  | ErrNilLogger
  | ErrNilAddress
  | ErrInvalidAddress
  | ErrNilValue
  | ErrInvalidValue
  | ErrLength
  | InvalidByteError char
  | Wrapped error string
  | ExternalError string

section \<open>Go library functions used by the transaction data builder\<close>

subsection \<open>\<open>encoding/hex\<close>\<close>

definition hextable :: string where
  "hextable = ''0123456789abcdef''"

text \<open>\<open>hex.EncodeToString\<close>: two lower-case digits per byte, high nibble first.\<close>

fun EncodeToString :: "byte list \<Rightarrow> string" where
  "EncodeToString [] = []"
| "EncodeToString (v # src) =
     hextable ! (unat v div 16) # hextable ! (unat v mod 16) # EncodeToString src"

text \<open>The reverse table of \<open>encoding/hex\<close>: \<open>None\<close> where the table holds \<open>0xff\<close>.\<close>

definition fromHexChar :: "char \<Rightarrow> nat option" where
  "fromHexChar c =
     (let n = of_char c :: nat in
      if 48 \<le> n \<and> n \<le> 57 then Some (n - 48)
      else if 97 \<le> n \<and> n \<le> 102 then Some (n - 97 + 10)
      else if 65 \<le> n \<and> n \<le> 70 then Some (n - 65 + 10)
      else None)"

text \<open>
  \<open>hex.DecodeString\<close>: the loop of \<open>hex.Decode\<close> reads two characters at a time and stops
  at the first character that is not a hexadecimal digit; a single character left over is
  checked for validity before the bad length is reported. The bytes decoded before the
  error are returned with it.
\<close>

fun DecodeString :: "string \<Rightarrow> byte list \<times> error option" where
  "DecodeString [] = ([], None)"
| "DecodeString [p] =
     (case fromHexChar p of
        None \<Rightarrow> ([], Some (InvalidByteError p))
      | Some a \<Rightarrow> ([], Some ErrLength))"
| "DecodeString (p # q # src) =
     (case fromHexChar p of
        None \<Rightarrow> ([], Some (InvalidByteError p))
      | Some a \<Rightarrow>
         (case fromHexChar q of
            None \<Rightarrow> ([], Some (InvalidByteError q))
          | Some b \<Rightarrow>
              (case DecodeString src of
                 (dst, e) \<Rightarrow> (of_nat (a * 16 + b) # dst, e))))"

subsection \<open>\<open>math/big\<close> and \<open>strings\<close>\<close>

text \<open>
  \<open>(*big.Int).Bytes\<close> is the big-endian representation of the absolute value, with no
  leading zero byte: it is empty for 0.
\<close>

fun natBytes :: "nat \<Rightarrow> byte list" where
  "natBytes n = (if n = 0 then [] else natBytes (n div 256) @ [of_nat (n mod 256)])"

declare natBytes.simps [simp del]

definition Bytes :: "int \<Rightarrow> byte list" where
  "Bytes x = natBytes (nat \<bar>x\<bar>)"

text \<open>\<open>big.NewInt\<close> of an \<open>int64\<close>: the signed value of the 64-bit word.\<close>

definition NewInt :: "64 word \<Rightarrow> int" where
  "NewInt v = sint v"

text \<open>\<open>strings.Join\<close>.\<close>

fun Join :: "string list \<Rightarrow> string \<Rightarrow> string" where
  "Join [] sep = []"
| "Join [e] sep = e"
| "Join (e # f # es) sep = e @ sep @ Join (f # es) sep"

section \<open>The transaction data builder\<close>

definition dataSeparator :: string where
  "dataSeparator = ''@''"

text \<open>
  A \<open>core.AddressHandler\<close> is used through its two methods only; the nil interface value
  is \<open>None\<close>.
\<close>

record AddressHandler =
  AddressBytes :: "byte list"
  AddressAsBech32String :: string

text \<open>The builder struct. The logger is only ever tested for nil.\<close>

record 'l txDataBuilder =
  address :: string
  "function" :: string
  callerAddr :: string
  args :: "string list"
  log :: "'l option"
  err :: "error option"

record VmValueRequest =
  Address :: string
  FuncName :: string
  CallerAddr :: string
  Args :: "string list"

definition NewTxDataBuilder :: "'l option \<Rightarrow> 'l txDataBuilder" where
  "NewTxDataBuilder lg =
     (let builder = \<lparr>address = [], function = [], callerAddr = [], args = [],
                      log = lg, err = None\<rparr>
      in if lg = None then builder\<lparr>err := Some ErrNilLogger\<rparr> else builder)"

definition Function :: "string \<Rightarrow> 'l txDataBuilder \<Rightarrow> 'l txDataBuilder" where
  "Function fn builder = builder\<lparr>function := fn\<rparr>"

definition checkAddress :: "AddressHandler option \<Rightarrow> error option" where
  "checkAddress a =
     (case a of
        None \<Rightarrow> Some (Wrapped ErrNilAddress '' in builder.checkAddress'')
      | Some h \<Rightarrow>
          if length (AddressBytes h) = 0
          then Some (Wrapped ErrInvalidAddress '' in builder.checkAddress'')
          else None)"

definition CallerAddress :: "AddressHandler option \<Rightarrow> 'l txDataBuilder \<Rightarrow> 'l txDataBuilder" where
  "CallerAddress a builder =
     (case checkAddress a of
        Some e \<Rightarrow> builder\<lparr>err := Some e\<rparr>
      | None \<Rightarrow> builder\<lparr>callerAddr := AddressAsBech32String (the a)\<rparr>)"

definition Address :: "AddressHandler option \<Rightarrow> 'l txDataBuilder \<Rightarrow> 'l txDataBuilder" where
  "Address a builder =
     (case checkAddress a of
        Some e \<Rightarrow> builder\<lparr>err := Some e\<rparr>
      | None \<Rightarrow> builder\<lparr>address := AddressAsBech32String (the a)\<rparr>)"

definition ArgHexString :: "string \<Rightarrow> 'l txDataBuilder \<Rightarrow> 'l txDataBuilder" where
  "ArgHexString hexed builder =
     (case snd (DecodeString hexed) of
        Some e \<Rightarrow>
          builder\<lparr>err := Some (Wrapped e ('' in builder.ArgHexString for string '' @ hexed))\<rparr>
      | None \<Rightarrow> builder\<lparr>args := args builder @ [hexed]\<rparr>)"

definition addBytes :: "byte list \<Rightarrow> 'l txDataBuilder \<Rightarrow> 'l txDataBuilder" where
  "addBytes bytes builder =
     (let bytes = (if length bytes = 0 then [0] else bytes)
      in builder\<lparr>args := args builder @ [EncodeToString bytes]\<rparr>)"

definition ArgAddress :: "AddressHandler option \<Rightarrow> 'l txDataBuilder \<Rightarrow> 'l txDataBuilder" where
  "ArgAddress a builder =
     (case checkAddress a of
        Some e \<Rightarrow> builder\<lparr>err := Some e\<rparr>
      | None \<Rightarrow> addBytes (AddressBytes (the a)) builder)"

definition ArgBigInt :: "int option \<Rightarrow> 'l txDataBuilder \<Rightarrow> 'l txDataBuilder" where
  "ArgBigInt v builder =
     (case v of
        None \<Rightarrow> builder\<lparr>err := Some (Wrapped ErrNilValue '' in builder.ArgBigInt'')\<rparr>
      | Some x \<Rightarrow> addBytes (Bytes x) builder)"

definition ArgInt64 :: "64 word \<Rightarrow> 'l txDataBuilder \<Rightarrow> 'l txDataBuilder" where
  "ArgInt64 v builder = (let b = NewInt v in addBytes (Bytes b) builder)"

text \<open>
  \<open>ArgBytes\<close> records the error for an empty argument and, having no return in that
  branch, still appends the (empty) encoding.
\<close>

definition ArgBytes :: "byte list \<Rightarrow> 'l txDataBuilder \<Rightarrow> 'l txDataBuilder" where
  "ArgBytes bytes builder =
     (let builder = (if length bytes = 0
                     then builder\<lparr>err := Some (Wrapped ErrInvalidValue '' in builder.ArgBytes'')\<rparr>
                     else builder)
      in builder\<lparr>args := args builder @ [EncodeToString bytes]\<rparr>)"

definition ToDataString :: "'l txDataBuilder \<Rightarrow> string \<times> error option" where
  "ToDataString builder =
     (case err builder of
        Some e \<Rightarrow> ([], Some e)
      | None \<Rightarrow>
          (let parts = [function builder] @ args builder
           in (Join parts dataSeparator, None)))"

text \<open>\<open>[]byte(s)\<close> of a string.\<close>

definition stringBytes :: "string \<Rightarrow> byte list" where
  "stringBytes s = map (\<lambda>c. of_nat (of_char c)) s"



text \<open>
  A sequence of builder calls, as a caller chains them. \<open>perform\<close> runs one call,
  \<open>performAll\<close> runs them from left to right.
\<close>

datatype builderCall =
    CallFunction string
  | CallCallerAddress "AddressHandler option"
  | CallAddress "AddressHandler option"
  | CallArgHexString string
  | CallArgAddress "AddressHandler option"
  | CallArgBigInt "int option"
  | CallArgInt64 "64 word"
  | CallArgBytes "byte list"

fun perform :: "builderCall \<Rightarrow> 'l txDataBuilder \<Rightarrow> 'l txDataBuilder" where
  "perform (CallFunction fn) builder = Function fn builder"
| "perform (CallCallerAddress a) builder = CallerAddress a builder"
| "perform (CallAddress a) builder = Address a builder"
| "perform (CallArgHexString hexed) builder = ArgHexString hexed builder"
| "perform (CallArgAddress a) builder = ArgAddress a builder"
| "perform (CallArgBigInt v) builder = ArgBigInt v builder"
| "perform (CallArgInt64 v) builder = ArgInt64 v builder"
| "perform (CallArgBytes bytes) builder = ArgBytes bytes builder"

fun performAll :: "builderCall list \<Rightarrow> 'l txDataBuilder \<Rightarrow> 'l txDataBuilder" where
  "performAll [] builder = builder"
| "performAll (c # cs) builder = performAll cs (perform c builder)"

text \<open>
  The calls that record an error, by their arguments: a nil or empty address, a string
  that is not valid hexadecimal, a nil big integer, an empty byte argument.
\<close>

definition nilOrEmpty :: "AddressHandler option \<Rightarrow> bool" where
  "nilOrEmpty a = (case a of None \<Rightarrow> True | Some h \<Rightarrow> AddressBytes h = [])"

fun recordsError :: "builderCall \<Rightarrow> bool" where
  "recordsError (CallFunction fn) = False"
| "recordsError (CallCallerAddress a) = nilOrEmpty a"
| "recordsError (CallAddress a) = nilOrEmpty a"
| "recordsError (CallArgHexString hexed) = (snd (DecodeString hexed) \<noteq> None)"
| "recordsError (CallArgAddress a) = nilOrEmpty a"
| "recordsError (CallArgBigInt v) = (v = None)"
| "recordsError (CallArgInt64 v) = False"
| "recordsError (CallArgBytes bytes) = (bytes = [])"

section \<open>Construction of the header verifier\<close>

text \<open>
  \<open>NewHeaderCheckHandler\<close> wires collaborators together. The configuration types, the
  component types and the factories it calls are declared outside the modelled file, so
  they are parameters: type variables for the opaque values, and a record of functions for
  the factories. Each collaborator call returns a Go pair \<open>(value, error)\<close>.
\<close>

text \<open>
  The remote data source. Each of the three configuration requests is made with a fresh
  background context and answers with a pair; the remaining methods of the interface (the
  raw header requests) live in the extension part of the record.
\<close>

record ('n, 'r, 'e) Proxy =
  GetNetworkConfig :: "'n \<times> error option"
  GetRatingsConfig :: "'r \<times> error option"
  GetEnableEpochsConfig :: "'e \<times> error option"

record ('m, 'h, 'rt) coreComponents =
  Marshaller :: 'm
  Hasher :: 'h
  Rater :: 'rt

record ('ms, 'ss, 'kg) cryptoComponents =
  MultiSig :: 'ms
  SingleSig :: 'ss
  KeyGen :: 'kg

text \<open>
  The values of the interface \<open>process.FallbackHeaderValidator\<close>: the stub of the
  \<open>testscommon\<close> package with no callback set, or any other implementation.
\<close>

datatype 'f FallbackHeaderValidator =
    FallBackHeaderValidatorStub
  | OtherFallbackValidator 'f

record ('m, 'h, 'nc, 'ms, 'ss, 'kg, 'f) ArgsHeaderSigVerifier =
  Marshalizer :: 'm
  Hasher :: 'h
  NodesCoordinator :: 'nc
  MultiSigVerifier :: 'ms
  SingleSigVerifier :: 'ss
  KeyGen :: 'kg
  FallbackHeaderValidator :: "'f FallbackHeaderValidator"

record ('rh, 'sv, 'nc) ArgsHeaderVerifier =
  HeaderHandler :: 'rh
  HeaderSigVerifier :: 'sv
  NodesCoordinator :: 'nc

text \<open>The factories, in the order in which the constructor calls them.\<close>

record ('n, 'r, 'e, 'x, 'm, 'h, 'rt, 'ms, 'ss, 'kg, 'nc, 'f, 'sv, 'rh, 'hv) factories =
  CreateCoreComponents :: "'r \<Rightarrow> 'n \<Rightarrow> ('m, 'h, 'rt) coreComponents \<times> error option"
  CreateCryptoComponents :: "('ms, 'ss, 'kg) cryptoComponents \<times> error option"
  CreateNodesCoordinator :: "'h \<Rightarrow> 'rt \<Rightarrow> 'n \<Rightarrow> 'e \<Rightarrow> 'nc \<times> error option"
  NewHeaderSigVerifier ::
    "('m, 'h, 'nc, 'ms, 'ss, 'kg, 'f) ArgsHeaderSigVerifier \<Rightarrow> 'sv \<times> error option"
  NewRawHeaderHandler :: "('n, 'r, 'e, 'x) Proxy_scheme \<Rightarrow> 'm \<Rightarrow> 'rh \<times> error option"
  NewHeaderVerifier :: "('rh, 'sv, 'nc) ArgsHeaderVerifier \<Rightarrow> 'hv \<times> error option"

text \<open>
  The log of collaborator calls made by one construction, each with its outcome. The call
  of \<open>NewHeaderSigVerifier\<close> is logged with the argument struct it receives.
\<close>

datatype 'a call =
    GetNetworkConfigCall
  | GetRatingsConfigCall
  | GetEnableEpochsConfigCall
  | CreateCoreComponentsCall
  | CreateCryptoComponentsCall
  | CreateNodesCoordinatorCall
  | NewHeaderSigVerifierCall 'a
  | NewRawHeaderHandlerCall
  | NewHeaderVerifierCall

datatype outcome = Succeeded | Failed

type_synonym 'a calls = "('a call \<times> outcome) list"

text \<open>
  One step of the constructor, \<open>v, err := f(...); if err != nil { return nil, err }\<close>:
  the call is logged; on an error the constructor returns at once with a nil verifier and
  that error, otherwise it goes on with the value.
\<close>

definition step ::
  "'a call \<Rightarrow> 'v \<times> error option \<Rightarrow> ('v \<Rightarrow> 'a calls \<times> 'hv option \<times> error option)
     \<Rightarrow> 'a calls \<times> 'hv option \<times> error option" where
  "step c r k =
     (case snd r of
        Some e \<Rightarrow> ([(c, Failed)], None, Some e)
      | None \<Rightarrow> (case k (fst r) of (cs, res) \<Rightarrow> ((c, Succeeded) # cs, res)))"

definition NewHeaderCheckHandler ::
  "('n, 'r, 'e, 'x, 'm, 'h, 'rt, 'ms, 'ss, 'kg, 'nc, 'f, 'sv, 'rh, 'hv) factories
     \<Rightarrow> ('n, 'r, 'e, 'x) Proxy_scheme option
     \<Rightarrow> ('m, 'h, 'nc, 'ms, 'ss, 'kg, 'f) ArgsHeaderSigVerifier calls \<times> 'hv option \<times> error option"
  where
  "NewHeaderCheckHandler fs proxy =
     (case proxy of
        None \<Rightarrow> ([], None, Some ErrNilProxy)
      | Some p \<Rightarrow>
     step GetNetworkConfigCall (GetNetworkConfig p) (\<lambda>networkConfig.
     step GetRatingsConfigCall (GetRatingsConfig p) (\<lambda>ratingsConfig.
     step GetEnableEpochsConfigCall (GetEnableEpochsConfig p) (\<lambda>enableEpochsConfig.
     step CreateCoreComponentsCall
          (CreateCoreComponents fs ratingsConfig networkConfig) (\<lambda>coreComp.
     step CreateCryptoComponentsCall (CreateCryptoComponents fs) (\<lambda>cryptoComp.
     step CreateNodesCoordinatorCall
          (CreateNodesCoordinator fs (coreComponents.Hasher coreComp) (Rater coreComp)
             networkConfig enableEpochsConfig) (\<lambda>nodesCoordinator.
     let headerSigArgs =
           \<lparr>Marshalizer = Marshaller coreComp,
            ArgsHeaderSigVerifier.Hasher = coreComponents.Hasher coreComp,
            ArgsHeaderSigVerifier.NodesCoordinator = nodesCoordinator,
            MultiSigVerifier = MultiSig cryptoComp,
            SingleSigVerifier = SingleSig cryptoComp,
            ArgsHeaderSigVerifier.KeyGen = cryptoComponents.KeyGen cryptoComp,
            FallbackHeaderValidator = FallBackHeaderValidatorStub\<rparr> in
     step (NewHeaderSigVerifierCall headerSigArgs)
          (NewHeaderSigVerifier fs headerSigArgs) (\<lambda>headerSigVerifier.
     step NewRawHeaderHandlerCall
          (NewRawHeaderHandler fs p (Marshaller coreComp)) (\<lambda>rawHeaderHandler.
     let headerVerifierArgs =
           \<lparr>HeaderHandler = rawHeaderHandler,
            HeaderSigVerifier = headerSigVerifier,
            ArgsHeaderVerifier.NodesCoordinator = nodesCoordinator\<rparr> in
     step NewHeaderVerifierCall (NewHeaderVerifier fs headerVerifierArgs) (\<lambda>headerVerifier.
     ([], Some headerVerifier, None)))))))))))"

text \<open>The argument structs with which \<open>NewHeaderSigVerifier\<close> was called, read off the log.\<close>

fun headerSigArgsOf :: "'a calls \<Rightarrow> 'a list" where
  "headerSigArgsOf [] = []"
| "headerSigArgsOf ((NewHeaderSigVerifierCall a, out) # cs) = a # headerSigArgsOf cs"
| "headerSigArgsOf (c # cs) = headerSigArgsOf cs"

text \<open>
  The collaborator calls in the order of the constructor's text, and the name of a logged
  call without its argument.
\<close>

definition constructionOrder :: "unit call list" where
  "constructionOrder =
     [GetNetworkConfigCall, GetRatingsConfigCall, GetEnableEpochsConfigCall,
      CreateCoreComponentsCall, CreateCryptoComponentsCall, CreateNodesCoordinatorCall,
      NewHeaderSigVerifierCall (), NewRawHeaderHandlerCall, NewHeaderVerifierCall]"

definition callName :: "'a call \<Rightarrow> unit call" where
  "callName c = map_call (\<lambda>a. ()) c"

text \<open>
  A sample wiring used to run the constructor on concrete inputs: every opaque value is a
  string or a number, and each factory returns a value that shows what it was given.
\<close>

definition sampleFactories ::
  "(nat, nat, nat, string, string, string, nat, string, string, string,
    string \<times> nat \<times> nat \<times> nat, unit,
    (string, string, string \<times> nat \<times> nat \<times> nat, string, string, string, unit)
      ArgsHeaderSigVerifier,
    string \<times> string,
    (string \<times> string,
     (string, string, string \<times> nat \<times> nat \<times> nat, string, string, string, unit)
       ArgsHeaderSigVerifier,
     string \<times> nat \<times> nat \<times> nat) ArgsHeaderVerifier) factories" where
  "sampleFactories =
     \<lparr>CreateCoreComponents =
        (\<lambda>r n. (\<lparr>Marshaller = ''marshaller'', Hasher = ''hasher'', Rater = r\<rparr>, None)),
      CreateCryptoComponents =
        (\<lparr>MultiSig = ''multisig'', SingleSig = ''singlesig'', KeyGen = ''keygen''\<rparr>, None),
      CreateNodesCoordinator = (\<lambda>h rt n e. ((h, rt, n, e), None)),
      NewHeaderSigVerifier = (\<lambda>a. (a, None)),
      NewRawHeaderHandler = (\<lambda>p m. ((Proxy.more p, m), None)),
      NewHeaderVerifier = (\<lambda>a. (a, None))\<rparr>"

definition sampleProxy :: "string \<Rightarrow> (nat, nat, nat, string) Proxy_scheme" where
  "sampleProxy url =
     \<lparr>GetNetworkConfig = (1, None), GetRatingsConfig = (2, None),
      GetEnableEpochsConfig = (3, None), \<dots> = url\<rparr>"

section \<open>The address generator\<close>

text \<open>
  The hasher and the blockchain hook are interface values held by the generator; they are
  used through one method each.
\<close>

record hashingHasher =
  Compute :: "string \<Rightarrow> byte list"

record BlockChainHookHandler =
  NewAddress :: "byte list \<Rightarrow> 64 word \<Rightarrow> byte list \<Rightarrow> byte list \<times> error option"

record 'c addressGenerator =
  coordinator :: 'c
  blockChainHook :: BlockChainHookHandler
  hasher :: hashingHasher

text \<open>
  Declared outside the modelled file, and so parameters: the length of the shard
  identifier, the identifier of the Arwen virtual machine, and the constructor of an
  address from its bytes.
\<close>

record addressDeps =
  ShardIdentiferLen :: nat
  ArwenVirtualMachine :: "byte list"
  NewAddressFromBytes :: "byte list \<Rightarrow> AddressHandler"

definition accountStartNonce :: "64 word" where
  "accountStartNonce = 0"

definition initialDNSAddress :: "byte list" where
  "initialDNSAddress = replicate 32 1"

text \<open>A Go function either returns or panics (a slice bound or an index out of range).\<close>

datatype 'a result = Returns 'a | Panics

definition CompatibleDNSAddress ::
  "addressDeps \<Rightarrow> 'c addressGenerator \<Rightarrow> byte
     \<Rightarrow> (AddressHandler option \<times> error option) result" where
  "CompatibleDNSAddress deps ag shardId =
     (let addressLen = length initialDNSAddress;
          shardInBytes = [0, shardId]
      in if addressLen < ShardIdentiferLen deps then Panics
         else
           (let newDNSPk = take (addressLen - ShardIdentiferLen deps) initialDNSAddress
                             @ shardInBytes
            in case NewAddress (blockChainHook ag) newDNSPk accountStartNonce
                      (ArwenVirtualMachine deps) of
                 (newDNSAddress, Some e) \<Rightarrow> Returns (None, Some e)
               | (newDNSAddress, None) \<Rightarrow>
                   Returns (Some (NewAddressFromBytes deps newDNSAddress), None)))"

definition CompatibleDNSAddressFromUsername ::
  "addressDeps \<Rightarrow> 'c addressGenerator \<Rightarrow> string
     \<Rightarrow> (AddressHandler option \<times> error option) result" where
  "CompatibleDNSAddressFromUsername deps ag username =
     (let hash = Compute (hasher ag) username
      in if length hash = 0 then Panics
         else (let lastByte = hash ! (length hash - 1)
               in CompatibleDNSAddress deps ag lastByte))"

text \<open>A sample generator: a hasher that returns the bytes of its input, and a hook that
  answers with the public key it was given.\<close>

definition sampleDeps :: addressDeps where
  "sampleDeps =
     \<lparr>ShardIdentiferLen = 2, ArwenVirtualMachine = [5, 0],
      NewAddressFromBytes = (\<lambda>bs. \<lparr>AddressBytes = bs, AddressAsBech32String = ''erd1''\<rparr>)\<rparr>"

definition sampleGenerator :: "unit addressGenerator" where
  "sampleGenerator =
     \<lparr>coordinator = (),
      blockChainHook = \<lparr>NewAddress = (\<lambda>pk nonce vm. (pk, None))\<rparr>,
      hasher = \<lparr>Compute = stringBytes\<rparr>\<rparr>"

section \<open>Properties of the header verifier construction\<close>

lemma fst_step:
  "fst (step c r k) =
     (case snd r of Some e \<Rightarrow> [(c, Failed)] | None \<Rightarrow> (c, Succeeded) # fst (k (fst r)))"
  by (simp add: step_def split: option.splits prod.splits)

lemma snd_step:
  "snd (step c r k) = (case snd r of Some e \<Rightarrow> (None, Some e) | None \<Rightarrow> snd (k (fst r)))"
  by (simp add: step_def split: option.splits prod.splits)

text \<open>
  C1 (as amended). The constructor takes the proxy and nothing else. Whenever it reaches
  the construction of the header signature verifier, the fallback validator in the
  argument struct is the stub of the \<open>testscommon\<close> package, whatever the proxy and the
  factories are: the caller has no means to supply another one.
\<close>

theorem fallback_validator_is_builtin_stub:
  "\<forall>a \<in> set (headerSigArgsOf (fst (NewHeaderCheckHandler fs proxy))).
     FallbackHeaderValidator a = FallBackHeaderValidatorStub"
  by (cases proxy)
     (simp_all add: NewHeaderCheckHandler_def fst_step Let_def split: option.splits)

theorem fallback_validator_is_builtin_stub_witness:
  "headerSigArgsOf (fst (NewHeaderCheckHandler sampleFactories (Some (sampleProxy ''node''))))
     \<noteq> []
   \<and> FallbackHeaderValidator
        (hd (headerSigArgsOf
               (fst (NewHeaderCheckHandler sampleFactories (Some (sampleProxy ''node''))))))
       = FallBackHeaderValidatorStub"
proof -
  have nonempty:
    "headerSigArgsOf (fst (NewHeaderCheckHandler sampleFactories (Some (sampleProxy ''node''))))
       \<noteq> []"
    by (simp add: NewHeaderCheckHandler_def fst_step Let_def sampleFactories_def sampleProxy_def)
  then have
    "hd (headerSigArgsOf
           (fst (NewHeaderCheckHandler sampleFactories (Some (sampleProxy ''node'')))))
       \<in> set (headerSigArgsOf
                (fst (NewHeaderCheckHandler sampleFactories (Some (sampleProxy ''node'')))))"
    by (rule hd_in_set)
  with nonempty
    fallback_validator_is_builtin_stub [of sampleFactories "Some (sampleProxy ''node'')"]
  show ?thesis
    by blast
qed

text \<open>
  The claim as stated fails: two constructions by callers with different proxies both hand
  the signature verifier the built-in stub, not a validator of the caller's.
\<close>

theorem fallback_validator_counterexample:
  "map FallbackHeaderValidator
     (headerSigArgsOf (fst (NewHeaderCheckHandler sampleFactories (Some (sampleProxy ''node-1'')))))
     = [FallBackHeaderValidatorStub]
   \<and> map FallbackHeaderValidator
     (headerSigArgsOf (fst (NewHeaderCheckHandler sampleFactories (Some (sampleProxy ''node-2'')))))
     = [FallBackHeaderValidatorStub]
   \<and> sampleProxy ''node-1'' \<noteq> sampleProxy ''node-2''
   \<and> FallBackHeaderValidatorStub \<noteq> OtherFallbackValidator ()"
  by (simp add: NewHeaderCheckHandler_def fst_step Let_def sampleFactories_def sampleProxy_def)

text \<open>
  C4. When one of the three configuration requests fails, the constructor returns a nil
  verifier and the error of the first request that failed, unchanged; the log holds
  configuration requests only, so no component was built.
\<close>

theorem config_fetch_failure_returns_nil_and_error:
  assumes "snd (GetNetworkConfig p) \<noteq> None \<or> snd (GetRatingsConfig p) \<noteq> None
           \<or> snd (GetEnableEpochsConfig p) \<noteq> None"
  shows "snd (NewHeaderCheckHandler fs (Some p)) =
           (None,
            case snd (GetNetworkConfig p) of
              Some e \<Rightarrow> Some e
            | None \<Rightarrow> (case snd (GetRatingsConfig p) of
                          Some e \<Rightarrow> Some e
                        | None \<Rightarrow> snd (GetEnableEpochsConfig p)))
       \<and> (\<exists>e. snd (NewHeaderCheckHandler fs (Some p)) = (None, Some e)
              \<and> (snd (GetNetworkConfig p) = Some e \<or> snd (GetRatingsConfig p) = Some e
                  \<or> snd (GetEnableEpochsConfig p) = Some e))
       \<and> set (map fst (fst (NewHeaderCheckHandler fs (Some p))))
            \<subseteq> {GetNetworkConfigCall, GetRatingsConfigCall, GetEnableEpochsConfigCall}"
  using assms
  by (auto simp add: NewHeaderCheckHandler_def fst_step snd_step split: option.splits)

theorem config_fetch_failure_witness:
  "snd (GetRatingsConfig ((sampleProxy ''node'')
          \<lparr>GetRatingsConfig := (0, Some (ExternalError ''timeout''))\<rparr>)) \<noteq> None
   \<and> NewHeaderCheckHandler sampleFactories
         (Some ((sampleProxy ''node'')\<lparr>GetRatingsConfig := (0, Some (ExternalError ''timeout''))\<rparr>))
       = ([(GetNetworkConfigCall, Succeeded), (GetRatingsConfigCall, Failed)],
          None, Some (ExternalError ''timeout''))"
proof -
  let ?p = "(sampleProxy ''node'')\<lparr>GetRatingsConfig := (0, Some (ExternalError ''timeout''))\<rparr>"
  have fails: "snd (GetNetworkConfig ?p) \<noteq> None \<or> snd (GetRatingsConfig ?p) \<noteq> None
               \<or> snd (GetEnableEpochsConfig ?p) \<noteq> None"
    by simp
  have log: "fst (NewHeaderCheckHandler sampleFactories (Some ?p))
               = [(GetNetworkConfigCall, Succeeded), (GetRatingsConfigCall, Failed)]"
    by (simp add: NewHeaderCheckHandler_def fst_step sampleProxy_def)
  from config_fetch_failure_returns_nil_and_error [OF fails, of sampleFactories]
  have "snd (NewHeaderCheckHandler sampleFactories (Some ?p))
          = (None, Some (ExternalError ''timeout''))"
    by (simp add: sampleProxy_def)
  with log show ?thesis
    by (simp add: prod_eq_iff)
qed

text \<open>
  C5. For a nil proxy the constructor returns a nil verifier and \<open>ErrNilProxy\<close>, an error
  value of its own, and the log of collaborator calls is empty: nothing was fetched.
\<close>

theorem nil_proxy_fails_without_fetching:
  "NewHeaderCheckHandler fs None = ([], None, Some ErrNilProxy)"
  by (simp add: NewHeaderCheckHandler_def)

text \<open>
  C6. In the log of one construction no call occurs twice, so each of the three
  configuration requests is made at most once; every logged call but the last one
  succeeded, so nothing is called after a call that failed; the calls made are an initial
  part of the constructor's sequence of calls; and a call failed exactly when a non-nil
  proxy ends with an error.
\<close>

theorem construction_calls_once_and_stops_at_first_failure:
  "distinct (map fst (fst (NewHeaderCheckHandler fs proxy)))
   \<and> count_list (map fst (fst (NewHeaderCheckHandler fs proxy))) GetNetworkConfigCall \<le> 1
   \<and> count_list (map fst (fst (NewHeaderCheckHandler fs proxy))) GetRatingsConfigCall \<le> 1
   \<and> count_list (map fst (fst (NewHeaderCheckHandler fs proxy))) GetEnableEpochsConfigCall \<le> 1
   \<and> Failed \<notin> set (map snd (butlast (fst (NewHeaderCheckHandler fs proxy))))
   \<and> map (callName \<circ> fst) (fst (NewHeaderCheckHandler fs proxy))
       = take (length (fst (NewHeaderCheckHandler fs proxy))) constructionOrder
   \<and> (Failed \<in> set (map snd (fst (NewHeaderCheckHandler fs proxy))))
       = (proxy \<noteq> None \<and> snd (snd (NewHeaderCheckHandler fs proxy)) \<noteq> None)"
  by (cases proxy)
     (simp_all add: NewHeaderCheckHandler_def fst_step snd_step Let_def constructionOrder_def
        callName_def split: option.splits)



section \<open>Properties of the transaction data builder\<close>


lemma checkAddress_None: "checkAddress a = None \<Longrightarrow> \<not> nilOrEmpty a"
  by (auto simp: checkAddress_def nilOrEmpty_def split: option.splits if_splits)

lemmas builder_defs =
  Function_def CallerAddress_def Address_def ArgHexString_def ArgAddress_def ArgBigInt_def
  ArgInt64_def ArgBytes_def addBytes_def Let_def

text \<open>\<open>recordsError\<close> is exact: these calls set the error, the others leave it as it is.\<close>

lemma perform_sets_err: "recordsError c \<Longrightarrow> err (perform c b) \<noteq> None"
  by (cases c) (auto simp: builder_defs split: option.splits dest: checkAddress_None)


text \<open>No call clears a recorded error, though a later failing call may replace it.\<close>

lemma perform_err_stays: "err b \<noteq> None \<Longrightarrow> err (perform c b) \<noteq> None"
  by (cases c) (auto simp: builder_defs split: option.splits)

lemma performAll_err_stays: "err b \<noteq> None \<Longrightarrow> err (performAll cs b) \<noteq> None"
proof (induction cs arbitrary: b)
  case Nil
  then show ?case by simp
next
  case (Cons c cs)
  from Cons.prems have "err (perform c b) \<noteq> None"
    by (rule perform_err_stays)
  then have "err (performAll cs (perform c b)) \<noteq> None"
    by (rule Cons.IH)
  then show ?case by simp
qed




lemma Bytes_zero: "Bytes 0 = []"
  by (simp add: Bytes_def natBytes.simps)

text \<open>
  C9. The byte representation of 0 is empty, and for it \<open>ArgBigInt\<close> and \<open>ArgInt64\<close>
  append the argument \<open>00\<close>; a builder with a logger, the function \<open>f\<close> and the single
  argument \<open>ArgInt64(0)\<close> gives the data string \<open>f@00\<close> and no error.
\<close>

theorem zero_argument_is_encoded_as_00:
  "Bytes 0 = []
   \<and> args (ArgBigInt (Some 0) b) = args b @ [''00'']
   \<and> args (ArgInt64 0 b) = args b @ [''00'']
   \<and> ToDataString (ArgInt64 0 (Function f (NewTxDataBuilder (Some lg)))) = (f @ ''@00'', None)"
  by (simp add: ToDataString_def ArgInt64_def ArgBigInt_def NewInt_def addBytes_def
        Function_def NewTxDataBuilder_def Bytes_zero hextable_def dataSeparator_def)

section \<open>Properties of the address generator\<close>

text \<open>
  C10. For a username whose hash is not empty (the Keccak hasher installed by the
  constructor returns 32 bytes), \<open>CompatibleDNSAddressFromUsername\<close> gives exactly what
  \<open>CompatibleDNSAddress\<close> gives for the last byte of the hash: the same address, the same
  error, the same panic.
\<close>

theorem dns_address_from_username_uses_last_hash_byte:
  assumes "Compute (hasher ag) username \<noteq> []"
  shows "CompatibleDNSAddressFromUsername deps ag username
           = CompatibleDNSAddress deps ag (last (Compute (hasher ag) username))"
  using assms
  by (simp add: CompatibleDNSAddressFromUsername_def Let_def last_conv_nth)

theorem dns_address_from_username_witness:
  "Compute (hasher sampleGenerator) ''alice'' \<noteq> []
   \<and> CompatibleDNSAddressFromUsername sampleDeps sampleGenerator ''alice''
       = CompatibleDNSAddress sampleDeps sampleGenerator 101
   \<and> CompatibleDNSAddress sampleDeps sampleGenerator 101
       = Returns (Some \<lparr>AddressBytes = replicate 30 1 @ [0, 101],
                        AddressAsBech32String = ''erd1''\<rparr>, None)"
proof -
  have nonempty: "Compute (hasher sampleGenerator) ''alice'' \<noteq> []"
    by (simp add: sampleGenerator_def stringBytes_def)
  have lastbyte: "last (Compute (hasher sampleGenerator) ''alice'') = 101"
    by (simp add: sampleGenerator_def stringBytes_def)
  have direct: "CompatibleDNSAddress sampleDeps sampleGenerator 101
       = Returns (Some \<lparr>AddressBytes = replicate 30 1 @ [0, 101],
                        AddressAsBech32String = ''erd1''\<rparr>, None)"
    by (simp add: CompatibleDNSAddress_def sampleDeps_def sampleGenerator_def
          initialDNSAddress_def Let_def)
  show ?thesis
    using nonempty direct
      dns_address_from_username_uses_last_hash_byte [OF nonempty, of sampleDeps]
    by (simp only: lastbyte simp_thms)
qed

end
